theory Spec2Isabelle
  imports Complex_Main
begin

section \<open>Vectors and rotation matrices\<close>

text \<open>
  Floating-point numbers of the notebooks are modelled as real numbers: every
  result below is a statement of exact real arithmetic. A three-component
  cartesian representation is a triple, a 3x3 matrix is the triple of its rows.
\<close>

type_synonym vec3 = "real \<times> real \<times> real"
type_synonym mat3 = "vec3 \<times> vec3 \<times> vec3"

fun dot :: "vec3 \<Rightarrow> vec3 \<Rightarrow> real" where
  "dot (a1, a2, a3) (b1, b2, b3) = a1 * b1 + a2 * b2 + a3 * b3"

text \<open>\<^verbatim>\<open>a.cross(b)\<close>: the vector product \<open>a \<times> b\<close>.\<close>

fun cross :: "vec3 \<Rightarrow> vec3 \<Rightarrow> vec3" where
  "cross (a1, a2, a3) (b1, b2, b3) =
     (a2 * b3 - a3 * b2, a3 * b1 - a1 * b3, a1 * b2 - a2 * b1)"

fun vadd :: "vec3 \<Rightarrow> vec3 \<Rightarrow> vec3" where
  "vadd (a1, a2, a3) (b1, b2, b3) = (a1 + b1, a2 + b2, a3 + b3)"

fun vsub :: "vec3 \<Rightarrow> vec3 \<Rightarrow> vec3" where
  "vsub (a1, a2, a3) (b1, b2, b3) = (a1 - b1, a2 - b2, a3 - b3)"

text \<open>\<^verbatim>\<open>rep.transform(matrix)\<close>: the matrix applied to the vector, \<open>M \<cdot> v\<close>.\<close>

fun transform :: "vec3 \<Rightarrow> mat3 \<Rightarrow> vec3" where
  "transform v (r1, r2, r3) = (dot r1 v, dot r2 v, dot r3 v)"

text \<open>\<^verbatim>\<open>matrix.transpose()\<close> of a 3x3 array.\<close>

fun transpose_m :: "mat3 \<Rightarrow> mat3" where
  "transpose_m ((a11, a12, a13), (a21, a22, a23), (a31, a32, a33)) =
     ((a11, a21, a31), (a12, a22, a32), (a13, a23, a33))"

fun matmul :: "mat3 \<Rightarrow> mat3 \<Rightarrow> mat3" where
  "matmul (r1, r2, r3) B =
     (transform r1 (transpose_m B), transform r2 (transpose_m B), transform r3 (transpose_m B))"

definition identity_m :: mat3 where
  "identity_m = ((1, 0, 0), (0, 1, 0), (0, 0, 1))"

definition orthogonal :: "mat3 \<Rightarrow> bool" where
  "orthogonal M = (matmul (transpose_m M) M = identity_m \<and> matmul M (transpose_m M) = identity_m)"

datatype axis = X | Y | Z

text \<open>
  Modelled from the spec: \<open>rotation_about_z\<close>, the library function
  \<^verbatim>\<open>rotation_matrix(angle, axis)\<close> that the transforms call and that is not
  under src/. It is the rotation of the coordinate axes about a principal
  axis by the angle: with \<open>c = cos angle\<close> and \<open>s = sin angle\<close>, the row and the
  column of the axis are those of the identity, and the remaining 2x2 block is
  \<open>c, s / -s, c\<close> in cyclic order of the axes.
\<close>

fun rotation_matrix :: "real \<Rightarrow> axis \<Rightarrow> mat3" where
  "rotation_matrix angle X =
     ((1, 0, 0), (0, cos angle, sin angle), (0, - sin angle, cos angle))"
| "rotation_matrix angle Y =
     ((cos angle, 0, - sin angle), (0, 1, 0), (sin angle, 0, cos angle))"
| "rotation_matrix angle Z =
     ((cos angle, sin angle, 0), (- sin angle, cos angle, 0), (0, 0, 1))"

section \<open>Frames, coordinates and the Earth-orientation provider\<close>

datatype frame_class = TEME | TIRS | ITRS

text \<open>
  A frame object without data (\<^verbatim>\<open>tirs_frame\<close>, \<^verbatim>\<open>teme_frame\<close>): its class and its
  \<^verbatim>\<open>obstime\<close> attribute. A coordinate is a frame that carries data: the
  cartesian position and, when present, the velocity attached to it. A frame
  holds no further differential.
\<close>

record 't frame =
  cls :: frame_class
  obstime :: 't

record 't coord = "'t frame" +
  position :: vec3
  velocity :: "vec3 option"

text \<open>
  The external Earth-orientation routines, taken as parameters: the polar-motion
  offsets \<open>(xp, yp)\<close> of \<^verbatim>\<open>get_polar_motion(obstime)\<close>, the quantity s-prime of
  \<^verbatim>\<open>erfa.sp00(*get_jd12(obstime, 'tt'))\<close>, and the sidereal angle of
  \<^verbatim>\<open>erfa.gmst82(*get_jd12(obstime, 'ut1'))\<close>, each a function of the instant.
\<close>

record 't earth_orientation =
  get_polar_motion :: "'t \<Rightarrow> real \<times> real"
  sp00 :: "'t \<Rightarrow> real"
  gmst82 :: "'t \<Rightarrow> real"

datatype error =
    ValueError_no_velocity
  | UnsupportedQuantityError
  | NonMonotonicSamplesError

text \<open>
  \<^verbatim>\<open>coord.velocity\<close>: the velocity differential of a coordinate; the access raises
  when the coordinate has no velocity data.
\<close>

definition get_velocity :: "('t, 'm) coord_scheme \<Rightarrow> error + vec3" where
  "get_velocity c = (case velocity c of None \<Rightarrow> Inl ValueError_no_velocity | Some v \<Rightarrow> Inr v)"

text \<open>
  Modelled from the spec: \<^verbatim>\<open>frame.realize_frame(data)\<close>, the frame initializer of
  the library, which is not under src/ and which also runs when the notebook
  wraps the propagator output (\<^verbatim>\<open>TEME(coords, obstime=output_time, ...)\<close>). The
  data are a position (\<open>r\<close>), a velocity that may be absent (\<open>v\<close>) and an
  acceleration that may be absent (\<open>a\<close>). An acceleration is a quantity the
  frames cannot handle: the data are refused with \<open>UnsupportedQuantityError\<close>
  and no coordinate is made. Otherwise the result is a coordinate of the class
  and attributes of the frame, carrying position and velocity.
\<close>

definition realize_frame ::
  "'t frame \<Rightarrow> vec3 \<Rightarrow> vec3 option \<Rightarrow> vec3 option \<Rightarrow> error + 't coord" where
  "realize_frame f r v a =
     (case a of
        Some x \<Rightarrow> Inl UnsupportedQuantityError
      | None \<Rightarrow> Inr \<lparr>cls = cls f, obstime = obstime f, position = r, velocity = v\<rparr>)"

section \<open>TEME and TIRS: the function edges\<close>

text \<open>
  \<^verbatim>\<open>_w\<close>: nominal mean angular velocity of the Earth, \<open>7.292115E-5\<close> rad/s about
  the z axis.
\<close>

definition w_earth :: vec3 where
  "w_earth = (0, 0, 7292115 / 10 ^ 11)"

definition gmst82_angle :: "'t earth_orientation \<Rightarrow> 't \<Rightarrow> real" where
  "gmst82_angle eo t = gmst82 eo t"

text \<open>
  \<^verbatim>\<open>teme_to_tirs(teme_coord, tirs_frame)\<close>. The position is rotated; the
  velocity is read from the input, rotated and corrected by \<open>w \<times> r_tirs\<close>; the
  two are the data of the result, realized in the target frame.
\<close>

definition teme_to_tirs ::
  "'t earth_orientation \<Rightarrow> 't coord \<Rightarrow> 't frame \<Rightarrow> error + 't coord" where
  "teme_to_tirs eo teme_coord tirs_frame =
     (let teme_to_pef_mat = rotation_matrix (gmst82_angle eo (obstime teme_coord)) Z;
          r_tirs = transform (position teme_coord) teme_to_pef_mat;
          wxr = cross w_earth r_tirs
      in case get_velocity teme_coord of
           Inl e \<Rightarrow> Inl e
         | Inr v \<Rightarrow>
             (let v_tirs = vsub (transform v teme_to_pef_mat) wxr
              in realize_frame tirs_frame r_tirs (Some v_tirs) None))"

text \<open>\<^verbatim>\<open>tirs_to_teme(tirs_coord, teme_frame)\<close>.\<close>

definition tirs_to_teme ::
  "'t earth_orientation \<Rightarrow> 't coord \<Rightarrow> 't frame \<Rightarrow> error + 't coord" where
  "tirs_to_teme eo tirs_coord teme_frame =
     (let teme_to_pef_mat = rotation_matrix (gmst82_angle eo (obstime tirs_coord)) Z;
          pef_to_teme_mat = transpose_m teme_to_pef_mat;
          r_teme = transform (position tirs_coord) pef_to_teme_mat;
          wxr = cross w_earth (position tirs_coord)
      in case get_velocity tirs_coord of
           Inl e \<Rightarrow> Inl e
         | Inr v \<Rightarrow>
             (let v_teme = transform (vadd v wxr) pef_to_teme_mat
              in realize_frame teme_frame r_teme (Some v_teme) None))"

section \<open>TIRS and ITRS: the matrix edges\<close>

text \<open>
  Modelled from the spec: the polar-motion matrix \<open>R_pm\<close> of the library routine
  \<^verbatim>\<open>erfa.pom00(xp, yp, sp)\<close>, which is not under src/: the offsets \<open>xp\<close>, \<open>yp\<close>
  and the term s-prime combined into a single matrix, the rotation about z by
  \<open>sp\<close>, followed by the rotation about y by \<open>-xp\<close> and the rotation about x by
  \<open>-yp\<close>.
\<close>

definition pom00 :: "real \<Rightarrow> real \<Rightarrow> real \<Rightarrow> mat3" where
  "pom00 xp yp sp =
     matmul (rotation_matrix (- yp) X) (matmul (rotation_matrix (- xp) Y) (rotation_matrix sp Z))"

text \<open>\<^verbatim>\<open>_polar_mot_matrix(obstime)\<close>.\<close>

definition polar_mot_matrix :: "'t earth_orientation \<Rightarrow> 't \<Rightarrow> mat3" where
  "polar_mot_matrix eo t =
     (let (xp, yp) = get_polar_motion eo t;
          sp = sp00 eo t;
          polar_mot_mat = pom00 xp yp sp
      in polar_mot_mat)"

text \<open>
  \<^verbatim>\<open>tirs_to_itrs(tirs_coord, itrs_frame)\<close> and \<^verbatim>\<open>itrs_to_tirs(itrs_coord, tirs_frame)\<close>:
  both return a matrix only, computed at the instant of the input coordinate.
\<close>

definition tirs_to_itrs :: "'t earth_orientation \<Rightarrow> 't coord \<Rightarrow> 't frame \<Rightarrow> mat3" where
  "tirs_to_itrs eo tirs_coord itrs_frame =
     (let tirs_to_itrs_mat = polar_mot_matrix eo (obstime tirs_coord) in tirs_to_itrs_mat)"

definition itrs_to_tirs :: "'t earth_orientation \<Rightarrow> 't coord \<Rightarrow> 't frame \<Rightarrow> mat3" where
  "itrs_to_tirs eo itrs_coord tirs_frame =
     (let itrs_to_tirs_mat = transpose_m (polar_mot_matrix eo (obstime itrs_coord))
      in itrs_to_tirs_mat)"

text \<open>
  Modelled from the spec: the application of a matrix edge by the frame
  transform graph (the library's \<^verbatim>\<open>DynamicMatrixTransform\<close>, registered by the
  decorators and not under src/). The matrix is computed by the edge's function
  for the input coordinate; the new position is \<open>M \<cdot> position\<close>, the new
  velocity is \<open>M \<cdot> velocity\<close> if a velocity is present, and the result is
  realized in the target frame.
\<close>

definition apply_matrix_edge ::
  "('t coord \<Rightarrow> 't frame \<Rightarrow> mat3) \<Rightarrow> 't coord \<Rightarrow> 't frame \<Rightarrow> error + 't coord" where
  "apply_matrix_edge matrix_fn fromcoord toframe =
     (let M = matrix_fn fromcoord toframe
      in realize_frame toframe (transform (position fromcoord) M)
           (map_option (\<lambda>v. transform v M) (velocity fromcoord)) None)"

text \<open>
  Two edges in sequence, as the graph chains them: the second is applied to
  the result of the first, and an error of the first ends the call.
\<close>

definition and_then :: "error + 'a \<Rightarrow> ('a \<Rightarrow> error + 'b) \<Rightarrow> error + 'b" where
  "and_then r k = (case r of Inl e \<Rightarrow> Inl e | Inr x \<Rightarrow> k x)"

text \<open>
  The plain sidereal rotation as a matrix edge, in each direction: what the
  TEME/TIRS edges would be without the \<open>w \<times> r\<close> term.
\<close>

definition sidereal_rotation :: "'t earth_orientation \<Rightarrow> 't coord \<Rightarrow> 't frame \<Rightarrow> mat3" where
  "sidereal_rotation eo fromcoord toframe =
     rotation_matrix (gmst82_angle eo (obstime fromcoord)) Z"

definition sidereal_rotation_back :: "'t earth_orientation \<Rightarrow> 't coord \<Rightarrow> 't frame \<Rightarrow> mat3" where
  "sidereal_rotation_back eo fromcoord toframe =
     transpose_m (rotation_matrix (gmst82_angle eo (obstime fromcoord)) Z)"

section \<open>Interpolators and the event loops\<close>

text \<open>
  The interpolant object of the interpolation library, by what the notebook
  uses of it: the value it returns when called at a time, and the list that
  \<^verbatim>\<open>roots()\<close> returns.
\<close>

record interpolator =
  eval :: "real \<Rightarrow> real"
  roots :: "real list"

fun strictly_increasing :: "real list \<Rightarrow> bool" where
  "strictly_increasing [] = True"
| "strictly_increasing [x] = True"
| "strictly_increasing (x # y # rest) = (x < y \<and> strictly_increasing (y # rest))"

text \<open>
  Modelled from the spec: the construction of the interpolant (the library's
  \<^verbatim>\<open>Akima1DInterpolator(x, y)\<close> constructor, not under src/). It takes the time
  samples and the value samples; time samples that are not strictly increasing
  are refused with \<open>NonMonotonicSamplesError\<close> at construction, and otherwise
  the interpolant is fitted. The fit itself is a parameter.
\<close>

definition Akima1DInterpolator ::
  "(real list \<Rightarrow> real list \<Rightarrow> interpolator) \<Rightarrow> real list \<Rightarrow> real list \<Rightarrow> error + interpolator" where
  "Akima1DInterpolator fit x y =
     (if strictly_increasing x then Inr (fit x y) else Inl NonMonotonicSamplesError)"

text \<open>
  The two assignments that set the interpolators up: the interpolant of the
  altitude and, at once, its derivative (\<^verbatim>\<open>derivative()\<close>, a parameter).
  Every evaluation and every \<^verbatim>\<open>roots()\<close> call of the notebook comes after them.
\<close>

definition init_interpolators ::
  "(real list \<Rightarrow> real list \<Rightarrow> interpolator) \<Rightarrow> (interpolator \<Rightarrow> interpolator) \<Rightarrow>
   real list \<Rightarrow> real list \<Rightarrow> error + interpolator \<times> interpolator" where
  "init_interpolators fit derivative t_float_list alt_deg =
     (case Akima1DInterpolator fit t_float_list alt_deg of
        Inl e \<Rightarrow> Inl e
      | Inr sun_alt_interpolator \<Rightarrow>
          (let sun_interpolator_deriv_alt = derivative sun_alt_interpolator
           in Inr (sun_alt_interpolator, sun_interpolator_deriv_alt)))"

text \<open>
  The rise/set loop. Its state is the two variables it assigns and what it
  prints: for each root the label line and the time.
\<close>

record rise_set_state =
  sun_rise_time :: "real option"
  sun_set_time :: "real option"
  printed :: "(string \<times> real) list"

fun rise_set_loop :: "interpolator \<Rightarrow> real list \<Rightarrow> rise_set_state \<Rightarrow> rise_set_state" where
  "rise_set_loop sun_interpolator_deriv_alt [] st = st"
| "rise_set_loop sun_interpolator_deriv_alt (event_time # rest) st =
     (let deriv = eval sun_interpolator_deriv_alt event_time
      in if deriv > 0
         then rise_set_loop sun_interpolator_deriv_alt rest
                (st\<lparr>sun_rise_time := Some event_time,
                    printed := printed st @ [(''Sunrise time:'', event_time)]\<rparr>)
         else rise_set_loop sun_interpolator_deriv_alt rest
                (st\<lparr>sun_set_time := Some event_time,
                    printed := printed st @ [(''Sunset time:'', event_time)]\<rparr>))"

definition rise_set_events :: "interpolator \<Rightarrow> interpolator \<Rightarrow> rise_set_state" where
  "rise_set_events sun_alt_interpolator sun_interpolator_deriv_alt =
     rise_set_loop sun_interpolator_deriv_alt (roots sun_alt_interpolator)
       \<lparr>sun_rise_time = None, sun_set_time = None, printed = []\<rparr>"

text \<open>
  The max/min loop. It prints, for each root of the derivative, the label
  line, the time and the altitude there.
\<close>

fun min_max_loop ::
  "interpolator \<Rightarrow> real list \<Rightarrow> (string \<times> real \<times> real) list \<Rightarrow> (string \<times> real \<times> real) list" where
  "min_max_loop sun_alt_interpolator [] out = out"
| "min_max_loop sun_alt_interpolator (event_time # rest) out =
     (let pos = eval sun_alt_interpolator event_time
      in if pos > 0
         then min_max_loop sun_alt_interpolator rest
                (out @ [(''Sun highest time:'', event_time, eval sun_alt_interpolator event_time)])
         else min_max_loop sun_alt_interpolator rest
                (out @ [(''Sun lowest time:'', event_time, eval sun_alt_interpolator event_time)]))"

definition min_max_events ::
  "interpolator \<Rightarrow> interpolator \<Rightarrow> (string \<times> real \<times> real) list" where
  "min_max_events sun_alt_interpolator sun_interpolator_deriv_alt =
     min_max_loop sun_alt_interpolator (roots sun_interpolator_deriv_alt) []"

section \<open>Concrete inputs\<close>

definition ex_eo :: "real earth_orientation" where
  "ex_eo = \<lparr>get_polar_motion = (\<lambda>t. (0, pi / 2)), sp00 = (\<lambda>t. 0), gmst82 = (\<lambda>t. pi / 2)\<rparr>"

definition ex_teme_frame :: "real frame" where
  "ex_teme_frame = \<lparr>cls = TEME, obstime = 0\<rparr>"

definition ex_tirs_frame :: "real frame" where
  "ex_tirs_frame = \<lparr>cls = TIRS, obstime = 0\<rparr>"

definition ex_itrs_frame :: "real frame" where
  "ex_itrs_frame = \<lparr>cls = ITRS, obstime = 0\<rparr>"

definition ex_coord :: "real coord" where
  "ex_coord = \<lparr>cls = TEME, obstime = 0, position = (1, 2, 3), velocity = Some (4, 5, 6)\<rparr>"

definition ex_coord_no_velocity :: "real coord" where
  "ex_coord_no_velocity = \<lparr>cls = TEME, obstime = 0, position = (1, 2, 3), velocity = None\<rparr>"

definition ex_alt :: interpolator where
  "ex_alt = \<lparr>eval = sin, roots = [0, pi]\<rparr>"

definition ex_deriv :: interpolator where
  "ex_deriv = \<lparr>eval = cos, roots = [pi / 2, 3 / 2 * pi]\<rparr>"

definition ex_fit :: "real list \<Rightarrow> real list \<Rightarrow> interpolator" where
  "ex_fit x y = \<lparr>eval = (\<lambda>t. 0), roots = []\<rparr>"

definition ex_derivative :: "interpolator \<Rightarrow> interpolator" where
  "ex_derivative p = p"

definition ex_flat_alt :: interpolator where
  "ex_flat_alt = \<lparr>eval = (\<lambda>t. t * t * t), roots = [0]\<rparr>"

definition ex_flat_deriv :: interpolator where
  "ex_flat_deriv = \<lparr>eval = (\<lambda>t. 3 * t * t), roots = [0]\<rparr>"

section \<open>Matrix algebra\<close>

lemma transform_matmul: "transform (transform v B) A = transform v (matmul A B)"
  by (cases v, cases A, cases B) (auto simp: algebra_simps)

lemma transpose_transpose: "transpose_m (transpose_m M) = M"
  by (cases M) auto

lemma transform_identity: "transform v identity_m = v"
  by (cases v) (simp add: identity_m_def)

lemma matmul_assoc: "matmul (matmul A B) C = matmul A (matmul B C)"
  by (cases A, cases B, cases C) (auto simp: algebra_simps)

lemma transpose_matmul: "transpose_m (matmul A B) = matmul (transpose_m B) (transpose_m A)"
  by (cases A, cases B) (auto simp: algebra_simps)

lemma matmul_identity: "matmul identity_m A = A" "matmul A identity_m = A"
  by (cases A; auto simp: identity_m_def)+

lemma orthogonal_rotation_matrix: "orthogonal (rotation_matrix angle ax)"
  by (cases ax) (simp_all add: orthogonal_def identity_m_def flip: power2_eq_square)

lemma orthogonal_transpose: "orthogonal M \<Longrightarrow> orthogonal (transpose_m M)"
  by (simp add: orthogonal_def transpose_transpose)

lemma orthogonal_matmul:
  assumes "orthogonal A" and "orthogonal B"
  shows "orthogonal (matmul A B)"
proof -
  have "matmul (transpose_m (matmul A B)) (matmul A B)
        = matmul (transpose_m B) (matmul (matmul (transpose_m A) A) B)"
    by (simp add: transpose_matmul matmul_assoc)
  also have "\<dots> = identity_m"
    using assms by (simp add: orthogonal_def matmul_identity)
  finally have l: "matmul (transpose_m (matmul A B)) (matmul A B) = identity_m" .
  have "matmul (matmul A B) (transpose_m (matmul A B))
        = matmul A (matmul (matmul B (transpose_m B)) (transpose_m A))"
    by (simp add: transpose_matmul matmul_assoc)
  also have "\<dots> = identity_m"
    using assms by (simp add: orthogonal_def matmul_identity)
  finally have r: "matmul (matmul A B) (transpose_m (matmul A B)) = identity_m" .
  from l r show ?thesis by (simp add: orthogonal_def)
qed

lemma orthogonal_undo:
  assumes "orthogonal M"
  shows "transform (transform v M) (transpose_m M) = v"
    and "transform (transform v (transpose_m M)) M = v"
  using assms by (simp_all add: transform_matmul orthogonal_def transform_identity)

lemma orthogonal_pom00: "orthogonal (pom00 xp yp sp)"
  unfolding pom00_def by (intro orthogonal_matmul orthogonal_rotation_matrix)

lemma transpose_rotation_z: "transpose_m (rotation_matrix angle Z) = rotation_matrix (- angle) Z"
  by simp

lemma z_cross_rotate_z:
  "transform (cross (0, 0, w) (transform (x, y, z) (rotation_matrix a Z)))
     (transpose_m (rotation_matrix a Z)) = cross (0, 0, w) (x, y, z)"
proof -
  have cs: "cos a * cos a + sin a * sin a = 1"
    using sin_cos_squared_add2 [of a] by (simp add: power2_eq_square)
  have 1: "cos a * (- (w * (cos a * y - sin a * x))) - sin a * (w * (cos a * x + sin a * y))
             = - (w * y)"
    using cs by algebra
  have 2: "sin a * (- (w * (cos a * y - sin a * x))) + cos a * (w * (cos a * x + sin a * y))
             = w * x"
    using cs by algebra
  have "transform (cross (0, 0, w) (transform (x, y, z) (rotation_matrix a Z)))
          (transpose_m (rotation_matrix a Z))
        = (cos a * (- (w * (cos a * y - sin a * x))) - sin a * (w * (cos a * x + sin a * y)),
           sin a * (- (w * (cos a * y - sin a * x))) + cos a * (w * (cos a * x + sin a * y)),
           0)"
    by (simp add: algebra_simps)
  also have "\<dots> = cross (0, 0, w) (x, y, z)"
    unfolding 1 2 by simp
  finally show ?thesis .
qed

lemma w_cross_rotate_z:
  "transform (cross w_earth (transform r (rotation_matrix a Z))) (transpose_m (rotation_matrix a Z))
     = cross w_earth r"
  unfolding w_earth_def by (cases r) (simp only: z_cross_rotate_z)

lemma dot_vadd: "dot r (vadd u v) = dot r u + dot r v"
  by (cases r, cases u, cases v) (simp add: algebra_simps)

lemma dot_vsub: "dot r (vsub u v) = dot r u - dot r v"
  by (cases r, cases u, cases v) (simp add: algebra_simps)

lemma transform_vadd: "transform (vadd u v) M = vadd (transform u M) (transform v M)"
  by (cases M) (simp add: dot_vadd)

lemma transform_vsub: "transform (vsub u v) M = vsub (transform u M) (transform v M)"
  by (cases M) (simp add: dot_vsub)

lemma vadd_vsub_cancel: "vadd (vsub u v) v = u" "vsub (vadd u v) v = u"
  by (cases u, cases v, simp)+

lemma w_cross_zero_iff: "cross w_earth (x, y, z) = (0, 0, 0) \<longleftrightarrow> x = 0 \<and> y = 0"
  by (auto simp: w_earth_def)

lemma vadd_neq: "vadd v d = v \<longleftrightarrow> d = (0, 0, 0)"
  by (cases v, cases d) auto

lemma vsub_neq: "vsub v d = v \<longleftrightarrow> d = (0, 0, 0)"
  by (cases v, cases d) auto

lemma orthogonal_polar_mot_matrix: "orthogonal (polar_mot_matrix eo t)"
  by (simp add: polar_mot_matrix_def Let_def split_beta orthogonal_pom00)

lemma ex_polar: "polar_mot_matrix ex_eo t = ((1, 0, 0), (0, 0, - 1), (0, 1, 0))"
  by (simp add: polar_mot_matrix_def ex_eo_def pom00_def)

section \<open>The loops as maps over the roots\<close>

lemma rise_set_loop_printed:
  "printed (rise_set_loop d ts st)
     = printed st @ map (\<lambda>t. (if eval d t > 0 then ''Sunrise time:'' else ''Sunset time:'', t)) ts"
  by (induction ts arbitrary: st) (simp_all add: Let_def)

lemma rise_set_events_printed:
  "printed (rise_set_events a d)
     = map (\<lambda>t. (if eval d t > 0 then ''Sunrise time:'' else ''Sunset time:'', t)) (roots a)"
  by (simp add: rise_set_events_def rise_set_loop_printed)

lemma min_max_loop_out:
  "min_max_loop a ts out
     = out @ map (\<lambda>t. (if eval a t > 0 then ''Sun highest time:'' else ''Sun lowest time:'',
                        t, eval a t)) ts"
  by (induction ts arbitrary: out) (simp_all add: Let_def)

lemma min_max_events_out:
  "min_max_events a d
     = map (\<lambda>t. (if eval a t > 0 then ''Sun highest time:'' else ''Sun lowest time:'',
                  t, eval a t)) (roots d)"
  by (simp add: min_max_events_def min_max_loop_out)

lemma strictly_increasing_sorted_wrt: "strictly_increasing xs = sorted_wrt (<) xs"
proof (induction xs rule: strictly_increasing.induct)
  case (3 x y rest)
  have "(\<forall>z \<in> set rest. y < z) \<Longrightarrow> x < y \<Longrightarrow> (\<forall>z \<in> set rest. x < z)"
    using less_trans by blast
  with 3 show ?case by auto
qed simp_all

section \<open>Properties of the TEME and TIRS function edges\<close>

text \<open>
  C1. For every input state with position and velocity, TEME to TIRS computes
  \<open>R = rotation_about_z(theta(t))\<close> from the sidereal angle at the instant of
  the state, returns the position \<open>R \<cdot> r\<close> and the velocity
  \<open>R \<cdot> v - w \<times> r_tirs\<close>, where \<open>w = (0, 0, 7.292115e-5)\<close> and \<open>r_tirs\<close> is the
  rotated position. The last two conjuncts spell the result out by components.
\<close>

theorem teme_to_tirs_correct:
  assumes "position c = (x, y, z)" and "velocity c = Some (vx, vy, vz)"
  shows "\<exists>c'. teme_to_tirs eo c f = Inr c'
           \<and> w_earth = (0, 0, 7292115 / 10 ^ 11)
           \<and> position c' = transform (x, y, z) (rotation_matrix (gmst82 eo (obstime c)) Z)
           \<and> velocity c' = Some (vsub (transform (vx, vy, vz) (rotation_matrix (gmst82 eo (obstime c)) Z))
                                       (cross w_earth (position c')))
           \<and> position c' = (cos (gmst82 eo (obstime c)) * x + sin (gmst82 eo (obstime c)) * y,
                            cos (gmst82 eo (obstime c)) * y - sin (gmst82 eo (obstime c)) * x,
                            z)
           \<and> velocity c' = Some
               (cos (gmst82 eo (obstime c)) * vx + sin (gmst82 eo (obstime c)) * vy
                  + 7292115 / 10 ^ 11
                    * (cos (gmst82 eo (obstime c)) * y - sin (gmst82 eo (obstime c)) * x),
                cos (gmst82 eo (obstime c)) * vy - sin (gmst82 eo (obstime c)) * vx
                  - 7292115 / 10 ^ 11
                    * (cos (gmst82 eo (obstime c)) * x + sin (gmst82 eo (obstime c)) * y),
                vz)"
  using assms
  by (simp add: teme_to_tirs_def get_velocity_def realize_frame_def gmst82_angle_def
      w_earth_def Let_def)

theorem teme_to_tirs_correct_witness:
  "position ex_coord = (1, 2, 3) \<and> velocity ex_coord = Some (4, 5, 6)
   \<and> teme_to_tirs ex_eo ex_coord ex_tirs_frame
       = Inr \<lparr>cls = TIRS, obstime = 0, position = (2, - 1, 3),
              velocity = Some (5 - 7292115 / 10 ^ 11, - 4 - 7292115 / 10 ^ 11 * 2, 6)\<rparr>"
  using teme_to_tirs_correct [of ex_coord 1 2 3 4 5 6 ex_eo ex_tirs_frame]
  by (simp add: ex_coord_def ex_eo_def ex_tirs_frame_def teme_to_tirs_def get_velocity_def
      realize_frame_def gmst82_angle_def w_earth_def Let_def)

text \<open>
  C2. For every input state with position and velocity, TIRS to TEME rotates
  the position by the transpose of \<open>rotation_about_z(theta(t))\<close>, which is
  \<open>rotation_about_z(- theta(t))\<close>, and computes the velocity by first adding
  \<open>w \<times> r_tirs\<close>, the cross product with the untransformed position, and then
  applying the transposed rotation: \<open>v_teme = R\<^sup>T \<cdot> (v_tirs + w \<times> r_tirs)\<close>.
\<close>

theorem tirs_to_teme_correct:
  assumes "position c = (x, y, z)" and "velocity c = Some (vx, vy, vz)"
  shows "\<exists>c'. tirs_to_teme eo c f = Inr c'
           \<and> position c' = transform (x, y, z) (transpose_m (rotation_matrix (gmst82 eo (obstime c)) Z))
           \<and> velocity c' = Some (transform (vadd (vx, vy, vz) (cross w_earth (x, y, z)))
                                  (transpose_m (rotation_matrix (gmst82 eo (obstime c)) Z)))
           \<and> transpose_m (rotation_matrix (gmst82 eo (obstime c)) Z)
               = rotation_matrix (- gmst82 eo (obstime c)) Z
           \<and> position c' = (cos (gmst82 eo (obstime c)) * x - sin (gmst82 eo (obstime c)) * y,
                            sin (gmst82 eo (obstime c)) * x + cos (gmst82 eo (obstime c)) * y,
                            z)
           \<and> velocity c' = Some
               (cos (gmst82 eo (obstime c)) * (vx - 7292115 / 10 ^ 11 * y)
                  - sin (gmst82 eo (obstime c)) * (vy + 7292115 / 10 ^ 11 * x),
                sin (gmst82 eo (obstime c)) * (vx - 7292115 / 10 ^ 11 * y)
                  + cos (gmst82 eo (obstime c)) * (vy + 7292115 / 10 ^ 11 * x),
                vz)"
  using assms
  by (simp add: tirs_to_teme_def get_velocity_def realize_frame_def gmst82_angle_def
      w_earth_def Let_def)

theorem tirs_to_teme_correct_witness:
  "position ex_coord = (1, 2, 3) \<and> velocity ex_coord = Some (4, 5, 6)
   \<and> tirs_to_teme ex_eo ex_coord ex_teme_frame
       = Inr \<lparr>cls = TEME, obstime = 0, position = (- 2, 1, 3),
              velocity = Some (- 5 - 7292115 / 10 ^ 11, 4 - 7292115 / 10 ^ 11 * 2, 6)\<rparr>"
  using tirs_to_teme_correct [of ex_coord 1 2 3 4 5 6 ex_eo ex_teme_frame]
  by (simp add: ex_coord_def ex_eo_def ex_teme_frame_def tirs_to_teme_def get_velocity_def
      realize_frame_def gmst82_angle_def w_earth_def Let_def)

text \<open>
  C3. For every state vector carrying position and velocity, and for each of
  the pairs TEME/TIRS and TIRS/ITRS, transforming to the other frame (taken at
  the instant of the state) and back reproduces position and velocity; in
  exact arithmetic the reproduction is an equality. With the \<open>w \<times> r\<close> term
  left out of one direction, that is, with the edge replaced by the plain
  rotation, the velocity comes back off by \<open>w \<times> r\<close>, which is not zero as soon
  as the position is off the z axis.
\<close>

theorem round_trip:
  assumes "velocity s = Some v" and "obstime f = obstime s"
  shows "(\<exists>s'. and_then (teme_to_tirs eo s f) (\<lambda>m. tirs_to_teme eo m f') = Inr s'
              \<and> position s' = position s \<and> velocity s' = velocity s)
       \<and> (\<exists>s'. and_then (tirs_to_teme eo s f) (\<lambda>m. teme_to_tirs eo m f') = Inr s'
              \<and> position s' = position s \<and> velocity s' = velocity s)
       \<and> (\<exists>s'. and_then (apply_matrix_edge (tirs_to_itrs eo) s f)
                   (\<lambda>m. apply_matrix_edge (itrs_to_tirs eo) m f') = Inr s'
              \<and> position s' = position s \<and> velocity s' = velocity s)
       \<and> (\<exists>s'. and_then (apply_matrix_edge (itrs_to_tirs eo) s f)
                   (\<lambda>m. apply_matrix_edge (tirs_to_itrs eo) m f') = Inr s'
              \<and> position s' = position s \<and> velocity s' = velocity s)
       \<and> (\<exists>s'. and_then (apply_matrix_edge (sidereal_rotation eo) s f)
                   (\<lambda>m. tirs_to_teme eo m f') = Inr s'
              \<and> velocity s' = Some (vadd v (cross w_earth (position s)))
              \<and> (fst (position s) \<noteq> 0 \<or> fst (snd (position s)) \<noteq> 0 \<longrightarrow> velocity s' \<noteq> velocity s))
       \<and> (\<exists>s'. and_then (teme_to_tirs eo s f)
                   (\<lambda>m. apply_matrix_edge (sidereal_rotation_back eo) m f') = Inr s'
              \<and> velocity s' = Some (vsub v (cross w_earth (position s)))
              \<and> (fst (position s) \<noteq> 0 \<or> fst (snd (position s)) \<noteq> 0 \<longrightarrow> velocity s' \<noteq> velocity s))"
proof -
  let ?R = "rotation_matrix (gmst82 eo (obstime s)) Z"
  let ?P = "polar_mot_matrix eo (obstime s)"
  have oR: "orthogonal ?R" by (rule orthogonal_rotation_matrix)
  have oP: "orthogonal ?P"
    by (simp add: polar_mot_matrix_def Let_def split_beta orthogonal_pom00)
  note rt = orthogonal_undo
  obtain x y z where r: "position s = (x, y, z)" by (cases "position s") auto
  have A: "\<exists>s'. and_then (teme_to_tirs eo s f) (\<lambda>m. tirs_to_teme eo m f') = Inr s'
              \<and> position s' = position s \<and> velocity s' = velocity s"
    using assms
    by (simp add: and_then_def teme_to_tirs_def tirs_to_teme_def get_velocity_def
        realize_frame_def gmst82_angle_def Let_def rt [OF oR] transform_vsub
        vadd_vsub_cancel del: rotation_matrix.simps)
  have B: "\<exists>s'. and_then (tirs_to_teme eo s f) (\<lambda>m. teme_to_tirs eo m f') = Inr s'
              \<and> position s' = position s \<and> velocity s' = velocity s"
    using assms
    by (simp add: and_then_def teme_to_tirs_def tirs_to_teme_def get_velocity_def
        realize_frame_def gmst82_angle_def Let_def rt [OF oR] transform_vadd
        vadd_vsub_cancel del: rotation_matrix.simps)
  have C: "\<exists>s'. and_then (apply_matrix_edge (tirs_to_itrs eo) s f)
                   (\<lambda>m. apply_matrix_edge (itrs_to_tirs eo) m f') = Inr s'
              \<and> position s' = position s \<and> velocity s' = velocity s"
    using assms
    by (simp add: and_then_def apply_matrix_edge_def tirs_to_itrs_def itrs_to_tirs_def
        realize_frame_def Let_def rt [OF oP])
  have D: "\<exists>s'. and_then (apply_matrix_edge (itrs_to_tirs eo) s f)
                   (\<lambda>m. apply_matrix_edge (tirs_to_itrs eo) m f') = Inr s'
              \<and> position s' = position s \<and> velocity s' = velocity s"
    using assms
    by (simp add: and_then_def apply_matrix_edge_def tirs_to_itrs_def itrs_to_tirs_def
        realize_frame_def Let_def rt [OF oP])
  have E: "\<exists>s'. and_then (apply_matrix_edge (sidereal_rotation eo) s f)
                   (\<lambda>m. tirs_to_teme eo m f') = Inr s'
              \<and> velocity s' = Some (vadd v (cross w_earth (position s)))
              \<and> (fst (position s) \<noteq> 0 \<or> fst (snd (position s)) \<noteq> 0 \<longrightarrow> velocity s' \<noteq> velocity s)"
    using assms
    by (simp add: and_then_def apply_matrix_edge_def sidereal_rotation_def tirs_to_teme_def
        get_velocity_def realize_frame_def gmst82_angle_def Let_def transform_vadd rt [OF oR]
        w_cross_rotate_z vadd_neq r w_cross_zero_iff del: rotation_matrix.simps)
  have F: "\<exists>s'. and_then (teme_to_tirs eo s f)
                   (\<lambda>m. apply_matrix_edge (sidereal_rotation_back eo) m f') = Inr s'
              \<and> velocity s' = Some (vsub v (cross w_earth (position s)))
              \<and> (fst (position s) \<noteq> 0 \<or> fst (snd (position s)) \<noteq> 0 \<longrightarrow> velocity s' \<noteq> velocity s)"
    using assms
    by (simp add: and_then_def apply_matrix_edge_def sidereal_rotation_back_def teme_to_tirs_def
        get_velocity_def realize_frame_def gmst82_angle_def Let_def transform_vsub rt [OF oR]
        w_cross_rotate_z vsub_neq r w_cross_zero_iff del: rotation_matrix.simps)
  from A B C D E F show ?thesis by blast
qed

theorem round_trip_witness:
  "velocity ex_coord = Some (4, 5, 6)
   \<and> obstime ex_tirs_frame = obstime ex_coord
   \<and> fst (position ex_coord) \<noteq> 0
   \<and> (\<exists>s'. and_then (teme_to_tirs ex_eo ex_coord ex_tirs_frame)
               (\<lambda>m. tirs_to_teme ex_eo m ex_teme_frame) = Inr s'
          \<and> position s' = (1, 2, 3) \<and> velocity s' = Some (4, 5, 6))
   \<and> (\<exists>s'. and_then (apply_matrix_edge (tirs_to_itrs ex_eo) ex_coord ex_tirs_frame)
               (\<lambda>m. apply_matrix_edge (itrs_to_tirs ex_eo) m ex_teme_frame) = Inr s'
          \<and> position s' = (1, 2, 3) \<and> velocity s' = Some (4, 5, 6))
   \<and> (\<exists>s'. and_then (apply_matrix_edge (sidereal_rotation ex_eo) ex_coord ex_tirs_frame)
               (\<lambda>m. tirs_to_teme ex_eo m ex_teme_frame) = Inr s'
          \<and> velocity s' \<noteq> Some (4, 5, 6))
   \<and> (\<exists>s'. and_then (teme_to_tirs ex_eo ex_coord ex_tirs_frame)
               (\<lambda>m. apply_matrix_edge (sidereal_rotation_back ex_eo) m ex_teme_frame) = Inr s'
          \<and> velocity s' \<noteq> Some (4, 5, 6))"
proof -
  have h1: "velocity ex_coord = Some (4, 5, 6)" by (simp add: ex_coord_def)
  have h3: "obstime ex_tirs_frame = obstime ex_coord"
    by (simp add: ex_coord_def ex_tirs_frame_def)
  have h4: "position ex_coord = (1, 2, 3)" by (simp add: ex_coord_def)
  show ?thesis
    using round_trip [OF h1 h3, of ex_eo ex_teme_frame] h1 h3
    by (simp add: h4) blast
qed

section \<open>Properties of the TIRS and ITRS matrix edges\<close>

text \<open>
  C4. TIRS to ITRS is a matrix edge: for every instant the matrix is the
  single polar-motion matrix built from \<open>(xp, yp)\<close> and s-prime at that
  instant, it is orthogonal, it is applied to the position and to the velocity
  alike with no further velocity term, and ITRS to TIRS applies the transpose
  of the same matrix.
\<close>

theorem polar_motion_edge:
  "tirs_to_itrs eo c f
     = pom00 (fst (get_polar_motion eo (obstime c))) (snd (get_polar_motion eo (obstime c)))
         (sp00 eo (obstime c))
   \<and> orthogonal (tirs_to_itrs eo c f)
   \<and> itrs_to_tirs eo c f' = transpose_m (tirs_to_itrs eo c f)
   \<and> apply_matrix_edge (tirs_to_itrs eo) c f
       = Inr \<lparr>cls = cls f, obstime = obstime f,
              position = transform (position c) (tirs_to_itrs eo c f),
              velocity = map_option (\<lambda>v. transform v (tirs_to_itrs eo c f)) (velocity c)\<rparr>
   \<and> apply_matrix_edge (itrs_to_tirs eo) c f'
       = Inr \<lparr>cls = cls f', obstime = obstime f',
              position = transform (position c) (transpose_m (tirs_to_itrs eo c f)),
              velocity = map_option (\<lambda>v. transform v (transpose_m (tirs_to_itrs eo c f)))
                           (velocity c)\<rparr>"
  by (simp add: tirs_to_itrs_def itrs_to_tirs_def apply_matrix_edge_def realize_frame_def Let_def
      orthogonal_polar_mot_matrix)
    (simp add: polar_mot_matrix_def split_beta)

theorem polar_motion_edge_witness:
  "tirs_to_itrs ex_eo ex_coord ex_itrs_frame = ((1, 0, 0), (0, 0, - 1), (0, 1, 0))
   \<and> itrs_to_tirs ex_eo ex_coord ex_tirs_frame = ((1, 0, 0), (0, 0, 1), (0, - 1, 0))
   \<and> orthogonal (tirs_to_itrs ex_eo ex_coord ex_itrs_frame)
   \<and> apply_matrix_edge (tirs_to_itrs ex_eo) ex_coord ex_itrs_frame
       = Inr \<lparr>cls = ITRS, obstime = 0, position = (1, - 3, 2), velocity = Some (4, - 6, 5)\<rparr>
   \<and> apply_matrix_edge (itrs_to_tirs ex_eo) ex_coord ex_tirs_frame
       = Inr \<lparr>cls = TIRS, obstime = 0, position = (1, 3, - 2), velocity = Some (4, 6, - 5)\<rparr>"
proof -
  note t = polar_motion_edge [of ex_eo ex_coord ex_itrs_frame ex_tirs_frame]
  have m: "tirs_to_itrs ex_eo ex_coord ex_itrs_frame = ((1, 0, 0), (0, 0, - 1), (0, 1, 0))"
    by (simp add: tirs_to_itrs_def ex_polar)
  from t have o: "orthogonal (tirs_to_itrs ex_eo ex_coord ex_itrs_frame)"
    by blast
  from t have tr: "itrs_to_tirs ex_eo ex_coord ex_tirs_frame
                     = transpose_m (tirs_to_itrs ex_eo ex_coord ex_itrs_frame)"
    by blast
  from t have ap1: "apply_matrix_edge (tirs_to_itrs ex_eo) ex_coord ex_itrs_frame
       = Inr \<lparr>cls = cls ex_itrs_frame, obstime = obstime ex_itrs_frame,
              position = transform (position ex_coord) (tirs_to_itrs ex_eo ex_coord ex_itrs_frame),
              velocity = map_option (\<lambda>v. transform v (tirs_to_itrs ex_eo ex_coord ex_itrs_frame))
                           (velocity ex_coord)\<rparr>"
    by blast
  from t have ap2: "apply_matrix_edge (itrs_to_tirs ex_eo) ex_coord ex_tirs_frame
       = Inr \<lparr>cls = cls ex_tirs_frame, obstime = obstime ex_tirs_frame,
              position = transform (position ex_coord)
                           (transpose_m (tirs_to_itrs ex_eo ex_coord ex_itrs_frame)),
              velocity = map_option (\<lambda>v. transform v
                           (transpose_m (tirs_to_itrs ex_eo ex_coord ex_itrs_frame)))
                           (velocity ex_coord)\<rparr>"
    by blast
  have tr': "itrs_to_tirs ex_eo ex_coord ex_tirs_frame = ((1, 0, 0), (0, 0, 1), (0, - 1, 0))"
    unfolding tr m by simp
  have ap1': "apply_matrix_edge (tirs_to_itrs ex_eo) ex_coord ex_itrs_frame
       = Inr \<lparr>cls = ITRS, obstime = 0, position = (1, - 3, 2), velocity = Some (4, - 6, 5)\<rparr>"
    unfolding ap1 m by (simp add: ex_itrs_frame_def ex_coord_def)
  have ap2': "apply_matrix_edge (itrs_to_tirs ex_eo) ex_coord ex_tirs_frame
       = Inr \<lparr>cls = TIRS, obstime = 0, position = (1, 3, - 2), velocity = Some (4, 6, - 5)\<rparr>"
    unfolding ap2 m by (simp add: ex_tirs_frame_def ex_coord_def)
  from m tr' o ap1' ap2' show ?thesis by blast
qed

section \<open>Absent velocity\<close>

text \<open>
  C5, as stated, fails: on a state without velocity the two function edges
  raise.
\<close>

theorem no_velocity_counterexample:
  "teme_to_tirs ex_eo ex_coord_no_velocity ex_tirs_frame = Inl ValueError_no_velocity
   \<and> tirs_to_teme ex_eo ex_coord_no_velocity ex_teme_frame = Inl ValueError_no_velocity"
  by (simp add: teme_to_tirs_def tirs_to_teme_def get_velocity_def ex_coord_no_velocity_def Let_def)

text \<open>
  C5, amended. For every state whose velocity is absent, the matrix edges
  between TIRS and ITRS do not raise, transform the position only and return a
  state whose velocity is absent; TEME to TIRS and TIRS to TEME read the
  velocity without a check and fail with the error of the missing velocity
  data.
\<close>

theorem no_velocity_behaviour:
  assumes "velocity s = None"
  shows "teme_to_tirs eo s f = Inl ValueError_no_velocity
       \<and> tirs_to_teme eo s f = Inl ValueError_no_velocity
       \<and> (\<exists>s'. apply_matrix_edge (tirs_to_itrs eo) s f = Inr s'
              \<and> position s' = transform (position s) (polar_mot_matrix eo (obstime s))
              \<and> velocity s' = None)
       \<and> (\<exists>s'. apply_matrix_edge (itrs_to_tirs eo) s f = Inr s'
              \<and> position s' = transform (position s) (transpose_m (polar_mot_matrix eo (obstime s)))
              \<and> velocity s' = None)"
  using assms
  by (simp add: teme_to_tirs_def tirs_to_teme_def get_velocity_def Let_def
      apply_matrix_edge_def tirs_to_itrs_def itrs_to_tirs_def realize_frame_def)

theorem no_velocity_behaviour_witness:
  "velocity ex_coord_no_velocity = None
   \<and> teme_to_tirs ex_eo ex_coord_no_velocity ex_tirs_frame = Inl ValueError_no_velocity
   \<and> (\<exists>s'. apply_matrix_edge (tirs_to_itrs ex_eo) ex_coord_no_velocity ex_itrs_frame = Inr s'
          \<and> position s' = (1, - 3, 2) \<and> velocity s' = None)"
proof -
  have h1: "velocity ex_coord_no_velocity = None" by (simp add: ex_coord_no_velocity_def)
  have p: "transform (position ex_coord_no_velocity) (polar_mot_matrix ex_eo t) = (1, - 3, 2)" for t
    by (simp add: ex_polar ex_coord_no_velocity_def)
  have a: "teme_to_tirs ex_eo ex_coord_no_velocity ex_tirs_frame = Inl ValueError_no_velocity"
    using no_velocity_behaviour [OF h1, of ex_eo ex_tirs_frame] by simp
  have b: "\<exists>s'. apply_matrix_edge (tirs_to_itrs ex_eo) ex_coord_no_velocity ex_itrs_frame = Inr s'
          \<and> position s' = (1, - 3, 2) \<and> velocity s' = None"
    using no_velocity_behaviour [OF h1, of ex_eo ex_itrs_frame] by (simp add: p)
  from h1 a b show ?thesis by simp
qed

section \<open>Present acceleration\<close>



section \<open>Properties of the event loops\<close>

text \<open>
  C7. For every root of the value interpolant the rise/set loop prints the
  rising label (\<open>Sunrise time:\<close>, the spec's \<open>rising_crossing\<close>) when the
  derivative interpolant is positive there and the falling label
  (\<open>Sunset time:\<close>, \<open>falling_crossing\<close>) when it is negative; for every root of
  the derivative interpolant the max/min loop prints the label of the maximum
  (\<open>Sun highest time:\<close>, \<open>local_max\<close>) when the value interpolant is positive
  there and the label of the minimum (\<open>Sun lowest time:\<close>, \<open>local_min\<close>) when
  it is negative. Each loop prints one entry per root, in the order of the
  roots.
\<close>

theorem classifier_labels:
  "length (printed (rise_set_events a d)) = length (roots a)
   \<and> length (min_max_events a d) = length (roots d)
   \<and> (\<forall>i < length (roots a).
        (eval d (roots a ! i) > 0 \<longrightarrow>
           printed (rise_set_events a d) ! i = (''Sunrise time:'', roots a ! i))
      \<and> (eval d (roots a ! i) < 0 \<longrightarrow>
           printed (rise_set_events a d) ! i = (''Sunset time:'', roots a ! i)))
   \<and> (\<forall>i < length (roots d).
        (eval a (roots d ! i) > 0 \<longrightarrow>
           min_max_events a d ! i = (''Sun highest time:'', roots d ! i, eval a (roots d ! i)))
      \<and> (eval a (roots d ! i) < 0 \<longrightarrow>
           min_max_events a d ! i = (''Sun lowest time:'', roots d ! i, eval a (roots d ! i))))"
  by (simp add: rise_set_events_printed min_max_events_out)

theorem classifier_labels_witness:
  "printed (rise_set_events ex_alt ex_deriv) = [(''Sunrise time:'', 0), (''Sunset time:'', pi)]
   \<and> min_max_events ex_alt ex_deriv
       = [(''Sun highest time:'', pi / 2, 1), (''Sun lowest time:'', 3 / 2 * pi, - 1)]"
proof -
  note t = classifier_labels [of ex_alt ex_deriv]
  have ra: "roots ex_alt = [0, pi]" by (simp add: ex_alt_def)
  have rd: "roots ex_deriv = [pi / 2, 3 / 2 * pi]" by (simp add: ex_deriv_def)
  have d0: "eval ex_deriv 0 > 0" and d1: "eval ex_deriv pi < 0"
    by (simp_all add: ex_deriv_def)
  have a0: "eval ex_alt (pi / 2) = 1"
    by (simp add: ex_alt_def)
  have a1: "eval ex_alt (3 / 2 * pi) = - 1"
    using sin_3over2_pi by (simp add: ex_alt_def)
  from t have l1: "length (printed (rise_set_events ex_alt ex_deriv)) = 2"
    by (simp add: ra)
  from t have l2: "length (min_max_events ex_alt ex_deriv) = 2"
    by (simp add: rd)
  from t have p: "\<forall>i < length (roots ex_alt).
        (eval ex_deriv (roots ex_alt ! i) > 0 \<longrightarrow>
           printed (rise_set_events ex_alt ex_deriv) ! i = (''Sunrise time:'', roots ex_alt ! i))
      \<and> (eval ex_deriv (roots ex_alt ! i) < 0 \<longrightarrow>
           printed (rise_set_events ex_alt ex_deriv) ! i = (''Sunset time:'', roots ex_alt ! i))"
    by blast
  from t have q: "\<forall>i < length (roots ex_deriv).
        (eval ex_alt (roots ex_deriv ! i) > 0 \<longrightarrow>
           min_max_events ex_alt ex_deriv ! i
             = (''Sun highest time:'', roots ex_deriv ! i, eval ex_alt (roots ex_deriv ! i)))
      \<and> (eval ex_alt (roots ex_deriv ! i) < 0 \<longrightarrow>
           min_max_events ex_alt ex_deriv ! i
             = (''Sun lowest time:'', roots ex_deriv ! i, eval ex_alt (roots ex_deriv ! i)))"
    by blast
  from p [rule_format, of 0] d0 have p0:
    "printed (rise_set_events ex_alt ex_deriv) ! 0 = (''Sunrise time:'', 0)"
    by (simp add: ra)
  from p [rule_format, of 1] d1 have p1:
    "printed (rise_set_events ex_alt ex_deriv) ! Suc 0 = (''Sunset time:'', pi)"
    by (simp add: ra)
  from q [rule_format, of 0] a0 have q0:
    "min_max_events ex_alt ex_deriv ! 0 = (''Sun highest time:'', pi / 2, 1)"
    by (simp add: rd)
  from q [rule_format, of 1] a1 have q1:
    "min_max_events ex_alt ex_deriv ! Suc 0 = (''Sun lowest time:'', 3 / 2 * pi, - 1)"
    by (simp add: rd)
  have two: "length xs = 2 \<Longrightarrow> xs = [xs ! 0, xs ! Suc 0]" for xs :: "'a list"
    by (cases xs; cases "tl xs") auto
  have e1: "printed (rise_set_events ex_alt ex_deriv)
              = [(''Sunrise time:'', 0), (''Sunset time:'', pi)]"
    by (subst two [OF l1]) (simp only: p0 p1)
  have e2: "min_max_events ex_alt ex_deriv
              = [(''Sun highest time:'', pi / 2, 1), (''Sun lowest time:'', 3 / 2 * pi, - 1)]"
    by (subst two [OF l2]) (simp only: q0 q1)
  from e1 e2 show ?thesis by (rule conjI)
qed

text \<open>
  C10. The sign tests are strict: the rising label is printed exactly when the
  derivative is greater than zero and the label of the maximum exactly when
  the value is greater than zero, so a root of the value interpolant where the
  derivative is exactly zero is printed as a set, and a root of the derivative
  interpolant where the value is exactly zero is printed as a lowest point.
\<close>

theorem strict_sign_tests:
  "(\<forall>i < length (roots a).
        (fst (printed (rise_set_events a d) ! i) = ''Sunrise time:''
           \<longleftrightarrow> eval d (roots a ! i) > 0)
      \<and> (eval d (roots a ! i) = 0 \<longrightarrow>
           printed (rise_set_events a d) ! i = (''Sunset time:'', roots a ! i)))
   \<and> (\<forall>i < length (roots d).
        (fst (min_max_events a d ! i) = ''Sun highest time:''
           \<longleftrightarrow> eval a (roots d ! i) > 0)
      \<and> (eval a (roots d ! i) = 0 \<longrightarrow>
           min_max_events a d ! i = (''Sun lowest time:'', roots d ! i, 0)))"
  by (simp add: rise_set_events_printed min_max_events_out)

theorem strict_sign_tests_witness:
  "eval ex_flat_deriv 0 = 0 \<and> eval ex_flat_alt 0 = 0
   \<and> printed (rise_set_events ex_flat_alt ex_flat_deriv) ! 0 = (''Sunset time:'', 0)
   \<and> min_max_events ex_flat_alt ex_flat_deriv ! 0 = (''Sun lowest time:'', 0, 0)"
proof -
  note t = strict_sign_tests [of ex_flat_alt ex_flat_deriv]
  have ra: "roots ex_flat_alt = [0]" and rd: "roots ex_flat_deriv = [0]"
    by (simp_all add: ex_flat_alt_def ex_flat_deriv_def)
  have d0: "eval ex_flat_deriv 0 = 0" and a0: "eval ex_flat_alt 0 = 0"
    by (simp_all add: ex_flat_alt_def ex_flat_deriv_def)
  from t have p: "\<forall>i < length (roots ex_flat_alt).
      eval ex_flat_deriv (roots ex_flat_alt ! i) = 0 \<longrightarrow>
        printed (rise_set_events ex_flat_alt ex_flat_deriv) ! i
          = (''Sunset time:'', roots ex_flat_alt ! i)"
    by blast
  from t have q: "\<forall>i < length (roots ex_flat_deriv).
      eval ex_flat_alt (roots ex_flat_deriv ! i) = 0 \<longrightarrow>
        min_max_events ex_flat_alt ex_flat_deriv ! i
          = (''Sun lowest time:'', roots ex_flat_deriv ! i, 0)"
    by blast
  from p [rule_format, of 0] d0 have p0:
    "printed (rise_set_events ex_flat_alt ex_flat_deriv) ! 0 = (''Sunset time:'', 0)"
    by (simp add: ra)
  from q [rule_format, of 0] a0 have q0:
    "min_max_events ex_flat_alt ex_flat_deriv ! 0 = (''Sun lowest time:'', 0, 0)"
    by (simp add: rd)
  from d0 a0 p0 q0 show ?thesis by simp
qed

section \<open>Construction of the interpolant\<close>

text \<open>
  C8. Constructing the interpolator with time samples that are not strictly
  increasing, such as \<open>[1.0, 0.5, 2.0]\<close>, fails with
  \<open>NonMonotonicSamplesError\<close> at construction: the set-up of the notebook ends
  with the error and yields no interpolant that could be evaluated.
\<close>

theorem non_monotonic_rejected:
  assumes "\<not> sorted_wrt (<) x"
  shows "Akima1DInterpolator fit x y = Inl NonMonotonicSamplesError
       \<and> init_interpolators fit derivative x y = Inl NonMonotonicSamplesError"
  using assms
  by (simp add: Akima1DInterpolator_def init_interpolators_def strictly_increasing_sorted_wrt)

theorem non_monotonic_rejected_witness:
  "\<not> sorted_wrt (<) [1, 1 / 2, 2 :: real]
   \<and> Akima1DInterpolator ex_fit [1, 1 / 2, 2] [10, 20, 30] = Inl NonMonotonicSamplesError
   \<and> init_interpolators ex_fit ex_derivative [1, 1 / 2, 2] [10, 20, 30]
       = Inl NonMonotonicSamplesError"
proof -
  have h: "\<not> sorted_wrt (<) [1, 1 / 2, 2 :: real]" by simp
  show ?thesis
    using non_monotonic_rejected [OF h, of ex_fit "[10, 20, 30]" ex_derivative] h by simp
qed

end
